theory Spec2Isabelle
  imports Complex_Main "HOL-Library.Word"
begin

section \<open>Package progmgr of msh: the data\<close>

text \<open>
  The theory embeds \<^verbatim>\<open>src/lib/progmgr/utils.go\<close>: \<^verbatim>\<open>treeProc\<close>, \<^verbatim>\<open>getMshTreeStats\<close>,
  \<^verbatim>\<open>buildApi2Req\<close>, \<^verbatim>\<open>sendApi2Req\<close> and \<^verbatim>\<open>readApi2Res\<close>.

  Conventions.
  \<^item> A Go \<^verbatim>\<open>error\<close> is the string \<^verbatim>\<open>err.Error()\<close>; a call returning \<^verbatim>\<open>(v, err)\<close> of which the
    code reads \<^verbatim>\<open>v\<close> only when \<^verbatim>\<open>err == nil\<close> is a sum, \<open>Inl\<close> the error. Where the pair
    itself matters (a pointer that may be \<^verbatim>\<open>nil\<close> beside a \<^verbatim>\<open>nil\<close> error) it is a pair of
    options, \<open>None\<close> for \<^verbatim>\<open>nil\<close>.
  \<^item> \<^verbatim>\<open>float64\<close> is a type variable \<open>'f\<close> of the sort \<open>{zero, plus}\<close>: the code only copies
    floats, starts accumulators at zero and adds. No law of addition is assumed, so every
    statement holds of IEEE addition as well as of the reals.
  \<^item> Go's \<^verbatim>\<open>int\<close> is \<open>int\<close>; the two conversions of the code (\<^verbatim>\<open>int32(...)\<close>, \<^verbatim>\<open>int(uint64)\<close>)
    wrap through a word, on a 64-bit target.
  \<^item> What the operating system, the libraries and the other files of the package answer
    is a parameter: a record of outcomes.
\<close>

type_synonym go_error = string

subsection \<open>Processes\<close>

text \<open>
  \<^verbatim>\<open>process.Process\<close>: the handle the code builds itself is \<^verbatim>\<open>{Pid: -1}\<close>, so the handle is its
  \<^verbatim>\<open>Pid\<close> (an \<^verbatim>\<open>int32\<close>).
\<close>

record Process =
  Pid :: int

text \<open>
  A process tree as the walk sees it: a handle together with what \<^verbatim>\<open>proc.Children()\<close>
  returns for it, an error or the children, each again with its own answer. Every node is
  asked once, so a tree fixes one run of the walk, whatever happened to the processes
  meanwhile. A tree is finite, as the processes of a system are.
\<close>

datatype proc_tree = ProcTree Process "go_error + proc_tree list"

text \<open>gopsutil: the calls of \<^verbatim>\<open>getMshTreeStats\<close>. \<^verbatim>\<open>NewProcess\<close> answers with the handle and
  the tree below it. \<^verbatim>\<open>MemoryPercent\<close> returns a \<^verbatim>\<open>float32\<close>, which the code converts with
  \<^verbatim>\<open>float64(pMem)\<close>; the conversion is exact, and the model holds the converted value.\<close>

record 'f procfs =
  Getpid :: int
  NewProcess :: "int \<Rightarrow> go_error + proc_tree"
  CPUPercent :: "Process \<Rightarrow> go_error + 'f"
  MemoryPercent :: "Process \<Rightarrow> go_error + 'f"

text \<open>\<^verbatim>\<open>sgm.stats\<close>, the statistics of the current segment.\<close>

record 'f SegmentStats =
  seconds :: int
  secondsHibe :: int
  cpuUsage :: 'f
  memUsage :: 'f
  playerSec :: int

section \<open>The tree walk and the sampler\<close>

definition int32 :: "int \<Rightarrow> int" where
  "int32 n = sint (word_of_int n :: 32 word)"

text \<open>
  \<^verbatim>\<open>
  children, err := proc.Children()
  if err != nil {
      // on linux, if a process does not have children an error is returned
      if err.Error() != "process does not have children" {
          return []*process.Process{proc}
      }
      // return pid -1 to indicate that an error occurred
      return []*process.Process{{Pid: -1}}
  }
  tree := []*process.Process{proc}
  for _, child := range children {
      tree = append(tree, treeProc(child)...)
  }
  return tree
  \<close>
\<close>

fun treeProc :: "proc_tree \<Rightarrow> Process list" where
  "treeProc (ProcTree proc res) =
     (case res of
        Inl err \<Rightarrow>
          (if err \<noteq> ''process does not have children'' then [proc]
           else [\<lparr>Pid = - 1\<rparr>])
      | Inr children \<Rightarrow>
          foldl (\<lambda>tree child. tree @ treeProc child) [proc] children)"

text \<open>
  The loop of \<^verbatim>\<open>getMshTreeStats\<close> over the handles of the walk, with the accumulators
  \<^verbatim>\<open>mshTreeCpu\<close> and \<^verbatim>\<open>mshTreeMem\<close>. The segment statistics are the global state: they are
  passed in and returned. A failing query returns from the function at once.
\<close>

fun sumTree ::
  "'f::{zero,plus} procfs \<Rightarrow> Process list \<Rightarrow> 'f \<Rightarrow> 'f \<Rightarrow> 'f SegmentStats
     \<Rightarrow> ('f \<times> 'f) \<times> 'f SegmentStats" where
  "sumTree os [] mshTreeCpu mshTreeMem stats = ((mshTreeCpu, mshTreeMem), stats)"
| "sumTree os (c # cs) mshTreeCpu mshTreeMem stats =
     (case CPUPercent os c of
        Inl err \<Rightarrow> ((cpuUsage stats, memUsage stats), stats)
      | Inr pCpu \<Rightarrow>
          (case MemoryPercent os c of
             Inl err \<Rightarrow> ((cpuUsage stats, memUsage stats), stats)
           | Inr pMem \<Rightarrow> sumTree os cs (mshTreeCpu + pCpu) (mshTreeMem + pMem) stats))"

definition getMshTreeStats ::
  "'f::{zero,plus} procfs \<Rightarrow> 'f SegmentStats \<Rightarrow> ('f \<times> 'f) \<times> 'f SegmentStats" where
  "getMshTreeStats os stats =
     (case NewProcess os (int32 (Getpid os)) of
        Inl err \<Rightarrow> ((cpuUsage stats, memUsage stats), stats)
      | Inr mshProc \<Rightarrow> sumTree os (treeProc mshProc) 0 0 stats)"

text \<open>Concrete inputs: a root with a childless child and a vanished child (Linux answers),
  and a system on which no process has the identifier -1.\<close>

definition leaf_linux :: "int \<Rightarrow> proc_tree" where
  "leaf_linux p = ProcTree \<lparr>Pid = p\<rparr> (Inl ''process does not have children'')"

definition vanished :: "int \<Rightarrow> proc_tree" where
  "vanished p = ProcTree \<lparr>Pid = p\<rparr> (Inl ''exit status 2'')"

definition leaf_windows :: "int \<Rightarrow> proc_tree" where
  "leaf_windows p = ProcTree \<lparr>Pid = p\<rparr> (Inr [])"

definition tree_linux :: proc_tree where
  "tree_linux = ProcTree \<lparr>Pid = 100\<rparr> (Inr [leaf_linux 101, vanished 102])"

definition tree_windows :: proc_tree where
  "tree_windows = ProcTree \<lparr>Pid = 100\<rparr> (Inr [leaf_windows 101, leaf_windows 102])"

definition os_example :: "proc_tree \<Rightarrow> real procfs" where
  "os_example t =
     \<lparr>Getpid = 100,
      NewProcess = (\<lambda>p. if p = 100 then Inr t else Inl ''no such process''),
      CPUPercent = (\<lambda>c. if Pid c < 0 then Inl ''no such process'' else Inr (real_of_int (Pid c) / 100)),
      MemoryPercent = (\<lambda>c. if Pid c < 0 then Inl ''no such process'' else Inr (1 / 2))\<rparr>"

definition stats_example :: "real SegmentStats" where
  "stats_example =
     \<lparr>seconds = 120, secondsHibe = 30, cpuUsage = 25 / 2, memUsage = 8, playerSec = 90\<rparr>"

section \<open>The report: data\<close>

text \<open>
  Package \<^verbatim>\<open>errco\<close> is another package of the program: an error value is the call
  \<^verbatim>\<open>errco.NewErr(code, level, origin, message)\<close> itself, and its constants are names.
\<close>

datatype errcode = ERROR_GET_CPU_INFO | ERROR_GET_CORES | ERROR_GET_MEMORY | ERROR_VERSION

datatype loglvl = LVL_D | LVL_E

datatype Error = NewErr errcode loglvl string go_error

datatype logarg = COLOR_PURPLE | COLOR_RESET | Arg string

text \<open>
  \<^verbatim>\<open>model.Api2Req\<close>, with the fields \<^verbatim>\<open>buildApi2Req\<close> assigns; the field \<^verbatim>\<open>reqJson.Msh.Sgm.Seconds\<close>
  is \<open>Msh_Sgm_Seconds\<close>. The fields \<open>Msh_*\<close> are the section of the msh instance.
\<close>

record 'f Api2Req =
  Protv :: int
  Msh_ID :: string
  Msh_Mshv :: string
  Msh_Uptime :: int
  Msh_AllowSuspend :: bool
  Msh_Sgm_Seconds :: int
  Msh_Sgm_SecondsHibe :: int
  Msh_Sgm_CpuUsage :: 'f
  Msh_Sgm_MemUsage :: 'f
  Msh_Sgm_PlayerSec :: int
  Msh_Sgm_PreTerm :: bool
  Machine_Os :: string
  Machine_Arch :: string
  Machine_Javav :: string
  Machine_CpuModel :: string
  Machine_CpuVendor :: string
  Machine_CoresMsh :: int
  Machine_CoresSys :: int
  Machine_Mem :: int
  Server_Uptime :: int
  Server_Msv :: string
  Server_MsProt :: int

text \<open>\<^verbatim>\<open>&model.Api2Req{}\<close>: every field has the zero value of its type.\<close>

definition Api2Req_zero :: "'f::zero Api2Req" where
  "Api2Req_zero =
     \<lparr>Protv = 0, Msh_ID = [], Msh_Mshv = [], Msh_Uptime = 0, Msh_AllowSuspend = False,
      Msh_Sgm_Seconds = 0, Msh_Sgm_SecondsHibe = 0, Msh_Sgm_CpuUsage = 0, Msh_Sgm_MemUsage = 0,
      Msh_Sgm_PlayerSec = 0, Msh_Sgm_PreTerm = False,
      Machine_Os = [], Machine_Arch = [], Machine_Javav = [], Machine_CpuModel = [],
      Machine_CpuVendor = [], Machine_CoresMsh = 0, Machine_CoresSys = 0, Machine_Mem = 0,
      Server_Uptime = 0, Server_Msv = [], Server_MsProt = 0\<rparr>"

text \<open>gopsutil's \<^verbatim>\<open>cpu.InfoStat\<close> and \<^verbatim>\<open>mem.VirtualMemoryStat\<close>, the fields the code reads.\<close>

record InfoStat =
  ModelName :: string
  Model :: string
  VendorID :: string

record VirtualMemoryStat =
  Total :: "64 word"

text \<open>The constants of the package and of the Go runtime; their declarations are in other
  files, so they are parameters.\<close>

record pkg =
  protv :: int
  MshVersion :: string
  GOOS :: string
  GOARCH :: string

text \<open>
  What \<^verbatim>\<open>buildApi2Req\<close> reads from outside: \<^verbatim>\<open>config.ConfigRuntime\<close>, \<^verbatim>\<open>config.Javav\<close>, the clock
  (\<open>since_startTime\<close> is \<^verbatim>\<open>time.Since(msh.startTime)\<close>, a \<^verbatim>\<open>time.Duration\<close> in nanoseconds),
  \<^verbatim>\<open>runtime.NumCPU()\<close>, the three lookups of gopsutil with their outcomes, and
  \<^verbatim>\<open>servctrl.TermUpTime()\<close>.
\<close>

record host =
  ConfigRuntime_Msh_ID :: string
  ConfigRuntime_Msh_AllowSuspend :: bool
  ConfigRuntime_Server_Version :: string
  ConfigRuntime_Server_Protocol :: int
  config_Javav :: string
  since_startTime :: int
  NumCPU :: int
  cpu_Info :: "go_error + InfoStat list"
  cpu_Counts :: "bool \<Rightarrow> go_error + int"
  mem_VirtualMemory :: "go_error + VirtualMemoryStat"
  TermUpTime :: int

text \<open>\<^verbatim>\<open>http.Request\<close> and \<^verbatim>\<open>http.Response\<close>. A response is what \<^verbatim>\<open>ioutil.ReadAll(res.Body)\<close>
  returns for it: the bytes read and the error, if any.\<close>

record Request =
  Method :: string
  URL :: string
  Body :: string
  Header :: "string \<rightharpoonup> string list"

record Response =
  ReadAll_Body :: "string \<times> go_error option"

text \<open>The libraries \<^verbatim>\<open>sendApi2Req\<close> calls, with their outcomes; \<open>client_Do\<close> takes the
  timeout of the client, in seconds.\<close>

record 'f net =
  json_Marshal :: "'f Api2Req \<Rightarrow> go_error + string"
  http_NewRequest :: "string \<Rightarrow> string \<Rightarrow> string \<Rightarrow> go_error + Request"
  client_Do :: "nat \<Rightarrow> Request \<Rightarrow> go_error + Response"

text \<open>
  A Go channel of booleans, as the runtime's \<^verbatim>\<open>hchan\<close>: the capacity \<open>dataqsiz\<close>, the buffered
  values and the number of receivers parked on the channel. \<^verbatim>\<open>ReqSent\<close> is declared in
  another file: its capacity is a parameter. No code of these files closes it.
\<close>

record chan =
  dataqsiz :: nat
  buf :: "bool list"
  recvq :: nat

text \<open>What the functions do to the world, in order. \<open>ClientDo\<close> is a finished call of
  \<^verbatim>\<open>client.Do(req)\<close>: the timeout of the client in seconds, the request and the outcome.\<close>

datatype event =
    LogMshErr Error
  | Logln loglvl string "logarg list"
  | ClientDo nat Request "go_error + Response"
  | SendReqSent bool
  | BodyClose

record world =
  ReqSent :: chan
  trace :: "event list"

datatype go_panic = IndexOutOfRange nat nat

section \<open>The report: functions\<close>

definition emit :: "event \<Rightarrow> world \<Rightarrow> world" where
  "emit e w = w\<lparr>trace := trace w @ [e]\<rparr>"

text \<open>
  \<^verbatim>\<open>int(time.Since(msh.startTime).Seconds())\<close>. \<^verbatim>\<open>Seconds\<close> is
  \<^verbatim>\<open>float64(d / Second) + float64(d % Second) / 1e9\<close> with Go's truncating division, and the
  conversion to \<^verbatim>\<open>int\<close> truncates toward zero. The model truncates the exact quotient: it has
  the sign of Go's result, and its value unless the rounding of the float sum carries.
\<close>

definition Seconds_int :: "int \<Rightarrow> int" where
  "Seconds_int d = (if 0 \<le> d then d div 1000000000 else - ((- d) div 1000000000))"

text \<open>
  \<^verbatim>\<open>buildApi2Req\<close>, statement by statement. \<^verbatim>\<open>cpuInfo[0]\<close> panics on an empty slice, which
  \<^verbatim>\<open>cpu.Info()\<close> can return with a nil error.
\<close>

definition buildApi2Req ::
  "pkg \<Rightarrow> host \<Rightarrow> 'f::zero SegmentStats \<Rightarrow> bool \<Rightarrow> world \<Rightarrow> (go_panic + 'f Api2Req) \<times> world" where
  "buildApi2Req k h stats preTerm w =
     (let reqJson = Api2Req_zero;
          reqJson = reqJson\<lparr>Protv := protv k\<rparr>;
          reqJson = reqJson\<lparr>Msh_ID := ConfigRuntime_Msh_ID h\<rparr>;
          reqJson = reqJson\<lparr>Msh_Mshv := MshVersion k\<rparr>;
          reqJson = reqJson\<lparr>Msh_Uptime := Seconds_int (since_startTime h)\<rparr>;
          reqJson = reqJson\<lparr>Msh_AllowSuspend := ConfigRuntime_Msh_AllowSuspend h\<rparr>;
          reqJson = reqJson\<lparr>Msh_Sgm_Seconds := seconds stats\<rparr>;
          reqJson = reqJson\<lparr>Msh_Sgm_SecondsHibe := secondsHibe stats\<rparr>;
          reqJson = reqJson\<lparr>Msh_Sgm_CpuUsage := cpuUsage stats\<rparr>;
          reqJson = reqJson\<lparr>Msh_Sgm_MemUsage := memUsage stats\<rparr>;
          reqJson = reqJson\<lparr>Msh_Sgm_PlayerSec := playerSec stats\<rparr>;
          reqJson = reqJson\<lparr>Msh_Sgm_PreTerm := preTerm\<rparr>;
          reqJson = reqJson\<lparr>Machine_Os := GOOS k\<rparr>;
          reqJson = reqJson\<lparr>Machine_Arch := GOARCH k\<rparr>;
          reqJson = reqJson\<lparr>Machine_Javav := config_Javav h\<rparr>
      in case
           (case cpu_Info h of
              Inl err \<Rightarrow>
                Inr (reqJson\<lparr>Machine_CpuModel := [], Machine_CpuVendor := []\<rparr>,
                     emit (LogMshErr (NewErr ERROR_GET_CPU_INFO LVL_D ''buildReq'' err)) w)
            | Inr cpuInfo \<Rightarrow>
                (case cpuInfo of
                   [] \<Rightarrow> Inl (IndexOutOfRange 0 0)
                 | cpuInfo0 # _ \<Rightarrow>
                     let reqJson = reqJson\<lparr>Machine_CpuModel := ModelName cpuInfo0\<rparr>;
                         reqJson = (if Machine_CpuModel reqJson = []
                                    then reqJson\<lparr>Machine_CpuModel := Model cpuInfo0\<rparr>
                                    else reqJson)
                     in Inr (reqJson\<lparr>Machine_CpuVendor := VendorID cpuInfo0\<rparr>, w)))
         of
           Inl p \<Rightarrow> (Inl p, w)
         | Inr (reqJson, w) \<Rightarrow>
             let reqJson = reqJson\<lparr>Machine_CoresMsh := NumCPU h\<rparr>;
                 (reqJson, w) =
                   (case cpu_Counts h True of
                      Inl err \<Rightarrow>
                        (reqJson\<lparr>Machine_CoresSys := - 1\<rparr>,
                         emit (LogMshErr (NewErr ERROR_GET_CORES LVL_D ''buildReq'' err)) w)
                    | Inr cores \<Rightarrow> (reqJson\<lparr>Machine_CoresSys := cores\<rparr>, w));
                 (reqJson, w) =
                   (case mem_VirtualMemory h of
                      Inl err \<Rightarrow>
                        (reqJson\<lparr>Machine_Mem := - 1\<rparr>,
                         emit (LogMshErr (NewErr ERROR_GET_MEMORY LVL_D ''buildReq'' err)) w)
                    | Inr memInfo \<Rightarrow> (reqJson\<lparr>Machine_Mem := sint (Total memInfo)\<rparr>, w));
                 reqJson = reqJson\<lparr>Server_Uptime := TermUpTime h\<rparr>;
                 reqJson = reqJson\<lparr>Server_Msv := ConfigRuntime_Server_Version h\<rparr>;
                 reqJson = reqJson\<lparr>Server_MsProt := ConfigRuntime_Server_Protocol h\<rparr>
             in (Inr reqJson, w))"

text \<open>
  The runtime's \<^verbatim>\<open>chansend(c, ep, block)\<close> on an open channel: a parked receiver takes the
  value; otherwise a free slot of the buffer does; otherwise a blocking send parks the
  sender (\<open>None\<close>: the call does not return) and a non-blocking one returns false.
\<close>

definition chansend :: "chan \<Rightarrow> bool \<Rightarrow> bool \<Rightarrow> (bool \<times> chan) option" where
  "chansend c ep block =
     (if 0 < recvq c then Some (True, c\<lparr>recvq := recvq c - 1\<rparr>)
      else if length (buf c) < dataqsiz c then Some (True, c\<lparr>buf := buf c @ [ep]\<rparr>)
      else if block then None
      else Some (False, c))"

text \<open>
  The deferred function of \<^verbatim>\<open>sendApi2Req\<close>,
  \<^verbatim>\<open>select { case ReqSent <- true: default: }\<close>: a select of one send and a default is
  the non-blocking send \<^verbatim>\<open>selectnbsend(c, elem) = chansend(c, elem, false)\<close>.
\<close>

definition notify_ReqSent :: "world \<Rightarrow> world option" where
  "notify_ReqSent w =
     (case chansend (ReqSent w) True False of
        None \<Rightarrow> None
      | Some (selected, c) \<Rightarrow> Some (emit (SendReqSent selected) (w\<lparr>ReqSent := c\<rparr>)))"

definition Header_Add :: "(string \<rightharpoonup> string list) \<Rightarrow> string \<Rightarrow> string \<Rightarrow> (string \<rightharpoonup> string list)" where
  "Header_Add h key v = h(key \<mapsto> (case h key of None \<Rightarrow> [v] | Some vs \<Rightarrow> vs @ [v]))"

definition Header_Set :: "(string \<rightharpoonup> string list) \<Rightarrow> string \<Rightarrow> string \<Rightarrow> (string \<rightharpoonup> string list)" where
  "Header_Set h key v = h(key \<mapsto> [v])"

text \<open>The body of \<^verbatim>\<open>sendApi2Req\<close> up to its \<^verbatim>\<open>return\<close> statements; the pair is Go's
  \<^verbatim>\<open>(*http.Response, *errco.Error)\<close>, \<open>None\<close> for \<^verbatim>\<open>nil\<close>.\<close>

definition sendApi2Req_body ::
  "pkg \<Rightarrow> 'f net \<Rightarrow> string \<Rightarrow> 'f Api2Req \<Rightarrow> world
     \<Rightarrow> (Response option \<times> Error option) \<times> world" where
  "sendApi2Req_body k net url api2req w =
     (let w = emit (Logln LVL_D ''sendApi2Req: sending request...'' []) w
      in case json_Marshal net api2req of
           Inl err \<Rightarrow> ((None, Some (NewErr ERROR_VERSION LVL_D ''sendApi2Req'' err)), w)
         | Inr reqByte \<Rightarrow>
             (case http_NewRequest net ''POST'' url reqByte of
                Inl err \<Rightarrow> ((None, Some (NewErr ERROR_VERSION LVL_D ''sendApi2Req'' err)), w)
              | Inr req \<Rightarrow>
                  let req = req\<lparr>Header := Header_Add (Header req) ''User-Agent''
                                  (''msh/'' @ MshVersion k @ '' ('' @ GOOS k @ '') '' @ GOARCH k)\<rparr>;
                      req = req\<lparr>Header := Header_Set (Header req) ''Content-Type'' ''application/json''\<rparr>;
                      w = emit (Logln LVL_E ''%smsh --> mshc%s:%v''
                                  [COLOR_PURPLE, COLOR_RESET, Arg reqByte]) w;
                      outcome = client_Do net 4 req;
                      w = emit (ClientDo 4 req outcome) w
                  in (case outcome of
                        Inl err \<Rightarrow> ((None, Some (NewErr ERROR_VERSION LVL_D ''sendApi2Req'' err)), w)
                      | Inr res \<Rightarrow> ((Some res, None), w))))"

text \<open>\<^verbatim>\<open>sendApi2Req\<close>: the deferred function runs after the body has returned, on every
  \<^verbatim>\<open>return\<close>. \<open>None\<close>: the call never returns.\<close>

definition sendApi2Req ::
  "pkg \<Rightarrow> 'f net \<Rightarrow> string \<Rightarrow> 'f Api2Req \<Rightarrow> world
     \<Rightarrow> ((Response option \<times> Error option) \<times> world) option" where
  "sendApi2Req k net url api2req w =
     (case sendApi2Req_body k net url api2req w of
        (ret, w) \<Rightarrow>
          (case notify_ReqSent w of None \<Rightarrow> None | Some w \<Rightarrow> Some (ret, w)))"

text \<open>
  \<^verbatim>\<open>readApi2Res\<close>. \<open>json_Unmarshal\<close> is \<^verbatim>\<open>json.Unmarshal(resByte, &resJson)\<close>: from the bytes
  and the pointer \<^verbatim>\<open>resJson\<close> (here \<^verbatim>\<open>nil\<close>) to the pointer afterwards and the error. The
  shape of \<^verbatim>\<open>model.Api2Res\<close> is the type variable \<open>'r\<close>.
\<close>

definition readApi2Res_body ::
  "(string \<Rightarrow> 'r option \<Rightarrow> 'r option \<times> go_error option) \<Rightarrow> Response \<Rightarrow> world
     \<Rightarrow> ('r option \<times> Error option) \<times> world" where
  "readApi2Res_body json_Unmarshal res w =
     (let w = emit (Logln LVL_D ''readApi2Res: reading response...'' []) w
      in case ReadAll_Body res of
           (resByte, Some err) \<Rightarrow>
             ((None, Some (NewErr ERROR_VERSION LVL_D ''readApi2Res'' err)), w)
         | (resByte, None) \<Rightarrow>
             let w = emit (Logln LVL_E ''%smshc --> msh%s:%v''
                             [COLOR_PURPLE, COLOR_RESET, Arg resByte]) w
             in (case json_Unmarshal resByte None of
                   (resJson, Some err) \<Rightarrow>
                     ((None, Some (NewErr ERROR_VERSION LVL_D ''readApi2Res'' err)), w)
                 | (resJson, None) \<Rightarrow> ((resJson, None), w)))"

text \<open>\<^verbatim>\<open>defer res.Body.Close()\<close> runs on every \<^verbatim>\<open>return\<close>.\<close>

definition readApi2Res ::
  "(string \<Rightarrow> 'r option \<Rightarrow> 'r option \<times> go_error option) \<Rightarrow> Response \<Rightarrow> world
     \<Rightarrow> ('r option \<times> Error option) \<times> world" where
  "readApi2Res json_Unmarshal res w =
     (case readApi2Res_body json_Unmarshal res w of (ret, w) \<Rightarrow> (ret, emit BodyClose w))"

text \<open>The two kinds of event the ordering of \<^verbatim>\<open>sendApi2Req\<close> is about.\<close>

definition is_SendReqSent :: "event \<Rightarrow> bool" where
  "is_SendReqSent e = (case e of SendReqSent selected \<Rightarrow> True | _ \<Rightarrow> False)"

definition is_ClientDo :: "event \<Rightarrow> bool" where
  "is_ClientDo e = (case e of ClientDo timeout req outcome \<Rightarrow> True | _ \<Rightarrow> False)"

text \<open>Concrete inputs for the report: the constants, a host whose CPU lookup has the given
  outcome and whose two other lookups fail, an empty single-slot channel nobody waits on,
  and a decoder that knows the documents \<^verbatim>\<open>null\<close> and \<^verbatim>\<open>{}\<close>.\<close>

definition pkg_example :: pkg where
  "pkg_example = \<lparr>protv = 2, MshVersion = ''v2.4.3'', GOOS = ''linux'', GOARCH = ''amd64''\<rparr>"

definition host_example :: "go_error + InfoStat list \<Rightarrow> host" where
  "host_example info =
     \<lparr>ConfigRuntime_Msh_ID = ''0123456789abcdef'', ConfigRuntime_Msh_AllowSuspend = False,
      ConfigRuntime_Server_Version = ''1.19.2'', ConfigRuntime_Server_Protocol = 760,
      config_Javav = ''17.0.4'', since_startTime = 7500000000, NumCPU = 4,
      cpu_Info = info,
      cpu_Counts = (\<lambda>logical. Inl ''not implemented yet''),
      mem_VirtualMemory = Inl ''no such file or directory'',
      TermUpTime = 3\<rparr>"


definition world_example :: world where
  "world_example = \<lparr>ReqSent = \<lparr>dataqsiz = 1, buf = [], recvq = 0\<rparr>, trace = []\<rparr>"

definition json_Unmarshal_example :: "string \<Rightarrow> unit option \<Rightarrow> unit option \<times> go_error option" where
  "json_Unmarshal_example data resJson =
     (if data = ''null'' then (None, None)
      else if data = ''{}'' then (Some (), None)
      else (resJson, Some ''invalid character''))"

definition net_example :: "real net" where
  "net_example =
     \<lparr>json_Marshal = (\<lambda>api2req. Inr ''{}''),
      http_NewRequest = (\<lambda>method url body.
         if url = [] then Inl ''empty url''
         else Inr \<lparr>Method = method, URL = url, Body = body, Header = Map.empty\<rparr>),
      client_Do = (\<lambda>timeout req. Inl ''context deadline exceeded'')\<rparr>"

section \<open>Properties of the tree walk\<close>

lemma treeProc_children:
  "treeProc (ProcTree proc (Inr children)) = proc # concat (map treeProc children)"
proof -
  have "foldl (\<lambda>tree child. tree @ treeProc child) acc children
          = acc @ concat (map treeProc children)" for acc
    by (induction children arbitrary: acc) simp_all
  then show ?thesis by simp
qed

lemma treeProc_error:
  "treeProc (ProcTree proc (Inl err)) =
     (if err = ''process does not have children'' then [\<lparr>Pid = - 1\<rparr>] else [proc])"
  by simp

text \<open>The walk returns at least one handle for every tree.\<close>

lemma treeProc_nonempty: "treeProc t \<noteq> []"
proof (cases t)
  case (ProcTree proc res)
  then show ?thesis
    by (cases res) (simp_all only: treeProc_error treeProc_children, simp_all)
qed

lemma treeProc_tree_linux:
  "treeProc tree_linux = [\<lparr>Pid = 100\<rparr>, \<lparr>Pid = - 1\<rparr>, \<lparr>Pid = 102\<rparr>]"
  by (simp add: leaf_linux_def vanished_def tree_linux_def)

lemma treeProc_tree_windows:
  "treeProc tree_windows = [\<lparr>Pid = 100\<rparr>, \<lparr>Pid = 101\<rparr>, \<lparr>Pid = 102\<rparr>]"
  by (simp add: leaf_windows_def tree_windows_def)

text \<open>
  Claim C1. At a node whose enumeration fails because the node has no children, the walk
  is to emit the node itself, and at a node whose enumeration fails for another reason it
  is to emit the sentinel handle (identifier -1) in its place. The code has the two cases
  the other way round: the test \<^verbatim>\<open>err.Error() != "process does not have children"\<close> guards
  the return of the node, against the two comments around it. So the childless process 101
  is replaced by the sentinel, and the vanished process 102, whose enumeration failed with
  another error, is emitted as itself.
\<close>

theorem treeProc_childless_gives_sentinel:
  "treeProc (leaf_linux 101) = [\<lparr>Pid = - 1\<rparr>] \<and>
   treeProc (vanished 102) = [\<lparr>Pid = 102\<rparr>] \<and>
   treeProc tree_linux = [\<lparr>Pid = 100\<rparr>, \<lparr>Pid = - 1\<rparr>, \<lparr>Pid = 102\<rparr>]"
  by (simp add: leaf_linux_def vanished_def tree_linux_def)

text \<open>
  Claim C2. For every tree the walk is to return a non-empty sequence whose first element
  is the root, a root without children included. The sequence is never empty
  (\<open>treeProc_nonempty\<close>), but for a root without children, where Linux answers with the
  error, the walk is the sentinel alone: its first element is not the root.
\<close>

theorem treeProc_childless_root_not_first:
  "treeProc (leaf_linux 100) \<noteq> [] \<and>
   hd (treeProc (leaf_linux 100)) = \<lparr>Pid = - 1\<rparr> \<and>
   hd (treeProc (leaf_linux 100)) \<noteq> \<lparr>Pid = 100\<rparr>"
  by (simp add: leaf_linux_def)

section \<open>Properties of the sampler\<close>

lemma int32_100: "int32 100 = 100"
  by (simp add: int32_def)

lemma sumTree_frame: "snd (sumTree os cs a b stats) = stats"
  by (induction cs arbitrary: a b) (simp_all split: sum.splits)

lemma sumTree_failure:
  "\<exists>c \<in> set cs. (\<exists>err. CPUPercent os c = Inl err) \<or> (\<exists>err. MemoryPercent os c = Inl err)
    \<Longrightarrow> fst (sumTree os cs a b stats) = (cpuUsage stats, memUsage stats)"
proof (induction cs arbitrary: a b)
  case Nil
  then show ?case by simp
next
  case (Cons c cs)
  show ?case
  proof (cases "CPUPercent os c")
    case (Inl err)
    then show ?thesis by simp
  next
    case cpu: (Inr pCpu)
    show ?thesis
    proof (cases "MemoryPercent os c")
      case (Inl err)
      with cpu show ?thesis by simp
    next
      case mem: (Inr pMem)
      from Cons.prems cpu mem
      have "\<exists>c \<in> set cs. (\<exists>err. CPUPercent os c = Inl err) \<or> (\<exists>err. MemoryPercent os c = Inl err)"
        by auto
      from Cons.IH [OF this] cpu mem show ?thesis by simp
    qed
  qed
qed

lemma sumTree_success:
  "map (CPUPercent os) cs = map Inr cpus \<Longrightarrow> map (MemoryPercent os) cs = map Inr mems
    \<Longrightarrow> sumTree os cs a b stats = ((foldl (+) a cpus, foldl (+) b mems), stats)"
proof (induction cs arbitrary: a b cpus mems)
  case Nil
  then show ?case by simp
next
  case (Cons c cs)
  from Cons.prems obtain pCpu cpus' pMem mems' where
    cpus: "cpus = pCpu # cpus'" "CPUPercent os c = Inr pCpu"
      "map (CPUPercent os) cs = map Inr cpus'"
    and mems: "mems = pMem # mems'" "MemoryPercent os c = Inr pMem"
      "map (MemoryPercent os) cs = map Inr mems'"
    by (cases cpus; cases mems) auto
  from Cons.IH [OF cpus(3) mems(3)] cpus(1,2) mems(1,2) show ?case by simp
qed

text \<open>
  Claim C3. If resolving the root process fails, or the CPU or memory query of some handle
  of the walk fails (the sentinel handle \<open>\<lparr>Pid = - 1\<rparr>\<close> is such a handle whenever the
  system knows no process -1), \<^verbatim>\<open>getMshTreeStats\<close> returns exactly the pair
  \<open>(cpuUsage, memUsage)\<close> stored in the segment statistics before the call: neither the
  zero accumulators nor the sum of the handles queried so far.
\<close>

theorem getMshTreeStats_failsafe:
  assumes "(\<exists>err. NewProcess os (int32 (Getpid os)) = Inl err) \<or>
           (\<exists>mshProc. NewProcess os (int32 (Getpid os)) = Inr mshProc \<and>
              (\<exists>c \<in> set (treeProc mshProc).
                 (\<exists>err. CPUPercent os c = Inl err) \<or> (\<exists>err. MemoryPercent os c = Inl err)))"
  shows "fst (getMshTreeStats os stats) = (cpuUsage stats, memUsage stats)"
  using assms
proof (elim disjE exE conjE)
  fix err assume "NewProcess os (int32 (Getpid os)) = Inl err"
  then show ?thesis by (simp add: getMshTreeStats_def)
next
  fix mshProc
  assume root: "NewProcess os (int32 (Getpid os)) = Inr mshProc"
    and "\<exists>c \<in> set (treeProc mshProc).
           (\<exists>err. CPUPercent os c = Inl err) \<or> (\<exists>err. MemoryPercent os c = Inl err)"
  from sumTree_failure [OF this(2)] root show ?thesis
    by (simp add: getMshTreeStats_def)
qed

text \<open>The walk of \<open>tree_linux\<close> holds the sentinel, whose CPU query fails after the root's
  queries succeeded: the sample is the stored pair (12.5, 8), not the partial sum.\<close>

theorem getMshTreeStats_failsafe_witness:
  "NewProcess (os_example tree_linux) (int32 (Getpid (os_example tree_linux))) = Inr tree_linux \<and>
   \<lparr>Pid = - 1\<rparr> \<in> set (treeProc tree_linux) \<and>
   CPUPercent (os_example tree_linux) \<lparr>Pid = - 1\<rparr> = Inl ''no such process'' \<and>
   fst (getMshTreeStats (os_example tree_linux) stats_example) = (25 / 2, 8)"
proof -
  have root: "NewProcess (os_example tree_linux) (int32 (Getpid (os_example tree_linux)))
                = Inr tree_linux"
    by (simp add: os_example_def int32_100)
  have mem: "\<lparr>Pid = - 1\<rparr> \<in> set (treeProc tree_linux)"
    by (simp add: treeProc_tree_linux)
  have cpu: "CPUPercent (os_example tree_linux) \<lparr>Pid = - 1\<rparr> = Inl ''no such process''"
    by (simp add: os_example_def)
  from root mem cpu
  have "fst (getMshTreeStats (os_example tree_linux) stats_example)
          = (cpuUsage stats_example, memUsage stats_example)"
    by (intro getMshTreeStats_failsafe) blast
  with root mem cpu show ?thesis by (simp add: stats_example_def)
qed

text \<open>
  Claim C7. When the root resolves and every CPU and memory query of the handles of the
  walk succeeds, with the values \<open>cpus\<close> and \<open>mems\<close> in the order of the walk,
  \<^verbatim>\<open>getMshTreeStats\<close> returns the two totals over every handle of the walk: each
  accumulator starts at zero and the values are added to it from left to right. Nothing
  is divided by the number of handles.
\<close>

theorem getMshTreeStats_totals:
  assumes "NewProcess os (int32 (Getpid os)) = Inr mshProc"
    and "map (CPUPercent os) (treeProc mshProc) = map Inr cpus"
    and "map (MemoryPercent os) (treeProc mshProc) = map Inr mems"
  shows "fst (getMshTreeStats os stats) = (foldl (+) 0 cpus, foldl (+) 0 mems)"
  using assms(1) sumTree_success [OF assms(2,3)] by (simp add: getMshTreeStats_def)

theorem getMshTreeStats_totals_witness:
  "NewProcess (os_example tree_windows) (int32 (Getpid (os_example tree_windows)))
     = Inr tree_windows \<and>
   map (CPUPercent (os_example tree_windows)) (treeProc tree_windows)
     = map Inr [1, 101 / 100, 51 / 50] \<and>
   map (MemoryPercent (os_example tree_windows)) (treeProc tree_windows)
     = map Inr [1 / 2, 1 / 2, 1 / 2] \<and>
   fst (getMshTreeStats (os_example tree_windows) stats_example) = (303 / 100, 3 / 2)"
proof -
  have root: "NewProcess (os_example tree_windows) (int32 (Getpid (os_example tree_windows)))
                = Inr tree_windows"
    by (simp add: os_example_def int32_100)
  have cpu: "map (CPUPercent (os_example tree_windows)) (treeProc tree_windows)
               = map Inr [1, 101 / 100, 51 / 50]"
    by (simp add: treeProc_tree_windows os_example_def)
  have mem: "map (MemoryPercent (os_example tree_windows)) (treeProc tree_windows)
               = map Inr [1 / 2, 1 / 2, 1 / 2]"
    by (simp add: treeProc_tree_windows os_example_def)
  from getMshTreeStats_totals [OF root cpu mem, of stats_example] root cpu mem
  show ?thesis by simp
qed

text \<open>
  Claim C10. \<^verbatim>\<open>getMshTreeStats\<close> writes no field of the segment statistics: on every run,
  successful or not and on any tree, the record \<open>seconds\<close>, \<open>secondsHibe\<close>, \<open>cpuUsage\<close>,
  \<open>memUsage\<close>, \<open>playerSec\<close> after the call is the record before it.
\<close>

theorem getMshTreeStats_frame: "snd (getMshTreeStats os stats) = stats"
  by (simp add: getMshTreeStats_def sumTree_frame split: sum.splits)

section \<open>Properties of the report builder\<close>


text \<open>No failing lookup stops \<^verbatim>\<open>buildApi2Req\<close>, and each one leaves its sentinel: the request
  is returned whenever the CPU lookup fails or returns an entry.\<close>

lemma buildApi2Req_returns:
  assumes "cpu_Info h \<noteq> Inr []"
  shows "\<exists>reqJson. fst (buildApi2Req k h stats preTerm w) = Inr reqJson"
proof (cases "cpu_Info h")
  case (Inl err)
  then show ?thesis
    by (simp add: buildApi2Req_def Let_def split: sum.splits prod.splits)
next
  case (Inr cpuInfo)
  with assms obtain c0 cs where "cpuInfo = c0 # cs" by (cases cpuInfo) auto
  with Inr show ?thesis
    by (simp add: buildApi2Req_def Let_def split: sum.splits prod.splits)
qed

lemma buildApi2Req_sentinels:
  assumes "buildApi2Req k h stats preTerm w = (Inr reqJson, w')"
  shows "\<forall>err. cpu_Info h = Inl err
           \<longrightarrow> Machine_CpuModel reqJson = [] \<and> Machine_CpuVendor reqJson = []"
    and "\<forall>err. cpu_Counts h True = Inl err \<longrightarrow> Machine_CoresSys reqJson = - 1"
    and "\<forall>err. mem_VirtualMemory h = Inl err \<longrightarrow> Machine_Mem reqJson = - 1"
  using assms
  by (auto simp add: buildApi2Req_def Let_def
      split: sum.splits prod.splits list.splits if_splits)

text \<open>
  Claim C5. For every combination of outcomes of the three host lookups,
  \<^verbatim>\<open>buildApi2Req\<close> is to return a complete request. It does when a lookup fails
  (\<open>buildApi2Req_returns\<close>, \<open>buildApi2Req_sentinels\<close>), but not for every outcome: when
  \<^verbatim>\<open>cpu.Info()\<close> returns no entry and no error, as gopsutil does on Linux when
  \<^verbatim>\<open>/proc/cpuinfo\<close> has no processor entry or cannot be read, \<^verbatim>\<open>cpuInfo[0]\<close> is out of
  range and the function panics: no request is returned.
\<close>

theorem buildApi2Req_empty_cpu_info_panics:
  "fst (buildApi2Req pkg_example (host_example (Inr [])) stats_example False world_example)
     = Inl (IndexOutOfRange 0 0)"
  by (simp add: buildApi2Req_def host_example_def Let_def)



section \<open>Properties of the client\<close>


text \<open>A plain send \<^verbatim>\<open>ReqSent <- true\<close> would park the sender on a full channel.\<close>

lemma chansend_blocking_parks:
  "chansend \<lparr>dataqsiz = 1, buf = [True], recvq = 0\<rparr> True True = None"
  by (simp add: chansend_def)



text \<open>Two runs on an empty single-slot channel. The request cannot be constructed: no
  exchange, and the notification is stored in the slot. The exchange times out: the
  notification follows it.\<close>

lemma sendApi2Req_no_request_example:
  "sendApi2Req pkg_example net_example [] Api2Req_zero world_example =
     Some ((None, Some (NewErr ERROR_VERSION LVL_D ''sendApi2Req'' ''empty url'')),
           \<lparr>ReqSent = \<lparr>dataqsiz = 1, buf = [True], recvq = 0\<rparr>,
            trace = [Logln LVL_D ''sendApi2Req: sending request...'' [], SendReqSent True]\<rparr>)"
  by (simp add: sendApi2Req_def sendApi2Req_body_def notify_ReqSent_def chansend_def emit_def
      net_example_def world_example_def)

lemma sendApi2Req_timeout_example:
  "map is_ClientDo (trace (snd (the
      (sendApi2Req pkg_example net_example ''http://localhost'' Api2Req_zero world_example))))
     = [False, False, True, False] \<and>
   map is_SendReqSent (trace (snd (the
      (sendApi2Req pkg_example net_example ''http://localhost'' Api2Req_zero world_example))))
     = [False, False, False, True]"
  by (simp add: sendApi2Req_def sendApi2Req_body_def notify_ReqSent_def chansend_def emit_def
      net_example_def world_example_def Let_def is_ClientDo_def is_SendReqSent_def)



section \<open>Properties of the response reader\<close>

text \<open>A failing read or parse gives an error and no response, whatever the decoder left in
  \<^verbatim>\<open>resJson\<close>; the body is closed last, once, on every path.\<close>

lemma readApi2Res_failure:
  assumes "(\<exists>data err. ReadAll_Body res = (data, Some err)) \<or>
           (\<exists>data resJson err. ReadAll_Body res = (data, None) \<and>
                                json_Unmarshal data None = (resJson, Some err))"
  shows "\<exists>e. fst (readApi2Res json_Unmarshal res w) = (None, Some e)"
  using assms
  by (auto simp add: readApi2Res_def readApi2Res_body_def Let_def
      split: prod.splits option.splits)

lemma readApi2Res_success:
  assumes "ReadAll_Body res = (data, None)" and "json_Unmarshal data None = (resJson, None)"
  shows "fst (readApi2Res json_Unmarshal res w) = (resJson, None)"
  using assms
  by (simp add: readApi2Res_def readApi2Res_body_def Let_def split: prod.splits option.splits)

lemma readApi2Res_closes_body:
  "\<exists>evs. trace (snd (readApi2Res json_Unmarshal res w)) = trace w @ evs @ [BodyClose] \<and>
         BodyClose \<notin> set evs"
  by (auto simp add: readApi2Res_def readApi2Res_body_def emit_def Let_def
      split: prod.splits option.splits)

text \<open>
  Claim C9. For every raw response \<^verbatim>\<open>readApi2Res\<close> is to return either a parsed response
  or an error. A failing read or parse does give an error and no response
  (\<open>readApi2Res_failure\<close>) and the body is closed on every path
  (\<open>readApi2Res_closes_body\<close>), but a body that is the JSON document \<^verbatim>\<open>null\<close> gives
  neither: \<^verbatim>\<open>json.Unmarshal\<close> into the pointer \<^verbatim>\<open>resJson\<close> sets it to \<^verbatim>\<open>nil\<close> and returns no
  error, and the function returns \<^verbatim>\<open>(nil, nil)\<close>.
\<close>

theorem readApi2Res_null_body:
  "fst (readApi2Res json_Unmarshal_example \<lparr>ReadAll_Body = (''null'', None)\<rparr> world_example)
     = (None, None)"
  by (simp add: readApi2Res_def readApi2Res_body_def json_Unmarshal_example_def Let_def)

end
